theory Spec2Isabelle
  imports Complex_Main "HOL-Library.Word"
begin

section \<open>Weight tables of the ATS scorer\<close>

text \<open>
  The sources carry two tables of score components. The architecture notes describe the
  rule-based scorer of \<^verbatim>\<open>nlp/ats_scorer.py\<close> as
  ``formatting 25%, keywords 30%, structure 20%, content 15%, readability 10%''; the
  prompt built by \<^verbatim>\<open>handleFormSubmit\<close> asks for a score ``based on keywords (40%),
  formatting (20%), impact metrics (20%), readability (10%), and risk penalties (10%)''.
  Both are kept in the order and with the component names of their source; weights are
  percentages.
\<close>

datatype component =
  Formatting | Keywords | Structure | Content | Readability | ImpactMetrics | RiskPenalties

type_synonym weight_table = "(component \<times> nat) list"

definition docs_weights :: weight_table where
  "docs_weights =
     [(Formatting, 25), (Keywords, 30), (Structure, 20), (Content, 15), (Readability, 10)]"

definition prompt_weights :: weight_table where
  "prompt_weights =
     [(Keywords, 40), (Formatting, 20), (ImpactMetrics, 20), (Readability, 10),
      (RiskPenalties, 10)]"

text \<open>The weight of a component as a fraction of one; a component the table does not list
  contributes nothing.\<close>

definition weight :: "weight_table \<Rightarrow> component \<Rightarrow> real" where
  "weight tbl c = (case map_of tbl c of Some p \<Rightarrow> of_nat p / 100 | None \<Rightarrow> 0)"

text \<open>The five sub-scores of a \<^verbatim>\<open>ScoreBreakdown\<close>.\<close>

definition sub_scores :: "component list" where
  "sub_scores = [Formatting, Keywords, Structure, Content, Readability]"

text \<open>The weighted sum a table defines over an assignment of scores to components.\<close>

definition weighted_sum :: "weight_table \<Rightarrow> (component \<Rightarrow> real) \<Rightarrow> real" where
  "weighted_sum tbl s = sum_list (map (\<lambda>(c, p). s c * (of_nat p / 100)) tbl)"


section \<open>The landing form: \<^verbatim>\<open>HeroSection\<close>\<close>

text \<open>
  A JavaScript string is a sequence of UTF-16 code units. \<^verbatim>\<open>String.prototype.trim\<close>
  strips the code units of the ECMAScript productions WhiteSpace and LineTerminator from
  both ends.
\<close>

type_synonym js_string = "16 word list"

definition js :: "string \<Rightarrow> js_string" where
  "js s = map (\<lambda>c. of_nat (of_char c)) s"

definition is_white_space :: "16 word \<Rightarrow> bool" where
  "is_white_space c \<longleftrightarrow>
     c = 0x0009 \<or> c = 0x000A \<or> c = 0x000B \<or> c = 0x000C \<or> c = 0x000D \<or> c = 0x0020 \<or>
     c = 0x00A0 \<or> c = 0x1680 \<or> (0x2000 \<le> c \<and> c \<le> 0x200A) \<or> c = 0x2028 \<or>
     c = 0x2029 \<or> c = 0x202F \<or> c = 0x205F \<or> c = 0x3000 \<or> c = 0xFEFF"

definition trim :: "js_string \<Rightarrow> js_string" where
  "trim s = rev (dropWhile is_white_space (rev (dropWhile is_white_space s)))"

text \<open>A string is falsy exactly when it is empty, so \<^verbatim>\<open>!s.trim()\<close> is:\<close>

definition blank :: "js_string \<Rightarrow> bool" where
  "blank s \<longleftrightarrow> trim s = []"

text \<open>The claim's wording: the text contains at least one non-whitespace character.\<close>

definition has_non_whitespace :: "js_string \<Rightarrow> bool" where
  "has_non_whitespace s \<longleftrightarrow> list_ex (\<lambda>c. \<not> is_white_space c) s"

text \<open>The component's state (three \<^verbatim>\<open>useState\<close> cells) and what a handler does to the
  outside: the toast it shows, the timer or file read it starts, the callback it calls.\<close>

record hero_state =
  resume :: js_string
  jobDescription :: js_string
  isLoading :: bool

record toast_message =
  title :: string
  description :: string
  variant :: string

record js_file =
  file_type :: js_string
  read_result :: "js_string option"

datatype effect =
    PreventDefault
  | Toast toast_message
  | SetTimeout nat js_string js_string
  | ReadAsText js_file
  | OnAnalyze js_string js_string

definition missing_information :: toast_message where
  "missing_information =
     \<lparr>title = ''Missing Information'',
      description = ''Please provide both your resume and the job description.'',
      variant = ''destructive''\<rparr>"

definition invalid_file :: toast_message where
  "invalid_file =
     \<lparr>title = ''Invalid File'',
      description = ''Please upload a text file (.txt) containing your resume.'',
      variant = ''destructive''\<rparr>"

text \<open>\<^verbatim>\<open>handleSubmit\<close>: the timer's callback closes over the two texts of this render.\<close>

definition handleSubmit :: "hero_state \<Rightarrow> hero_state \<times> effect list" where
  "handleSubmit st =
     (if blank (resume st) \<or> blank (jobDescription st)
      then (st, [PreventDefault, Toast missing_information])
      else (st\<lparr>isLoading := True\<rparr>,
            [PreventDefault, SetTimeout 2000 (resume st) (jobDescription st)]))"

text \<open>\<^verbatim>\<open>handleFileUpload\<close>: \<^verbatim>\<open>event.target.files?.[0]\<close> is undefined for a missing
  list and for an empty one.\<close>

definition first_file :: "js_file list option \<Rightarrow> js_file option" where
  "first_file files = (case files of None \<Rightarrow> None | Some [] \<Rightarrow> None | Some (f # _) \<Rightarrow> Some f)"

definition handleFileUpload :: "js_file list option \<Rightarrow> hero_state \<Rightarrow> hero_state \<times> effect list" where
  "handleFileUpload files st =
     (case first_file files of
        Some f \<Rightarrow>
          if file_type f = js ''text/plain'' then (st, [ReadAsText f])
          else (st, [Toast invalid_file])
      | None \<Rightarrow> (st, [Toast invalid_file]))"

text \<open>What a started effect does when it completes: the timer's callback calls
  \<^verbatim>\<open>onAnalyze\<close> and clears the loading flag; the reader's \<^verbatim>\<open>onload\<close> stores the text
  (a read that fails fires no \<^verbatim>\<open>onload\<close>). The other effects start nothing.\<close>

fun complete :: "effect \<Rightarrow> hero_state \<Rightarrow> hero_state \<times> effect list" where
  "complete (SetTimeout ms r j) st = (st\<lparr>isLoading := False\<rparr>, [OnAnalyze r j])"
| "complete (ReadAsText f) st =
     (case read_result f of Some content \<Rightarrow> (st\<lparr>resume := content\<rparr>, []) | None \<Rightarrow> (st, []))"
| "complete _ st = (st, [])"

fun complete_all :: "effect list \<Rightarrow> hero_state \<Rightarrow> hero_state \<times> effect list" where
  "complete_all [] st = (st, [])"
| "complete_all (e # es) st =
     (case complete e st of (st1, out1) \<Rightarrow>
        (case complete_all es st1 of (st2, out2) \<Rightarrow> (st2, out1 @ out2)))"

text \<open>A handler run together with everything it started.\<close>

definition settle :: "hero_state \<times> effect list \<Rightarrow> hero_state \<times> effect list" where
  "settle r = (case r of (st, es) \<Rightarrow>
     (case complete_all es st of (st', out) \<Rightarrow> (st', es @ out)))"

definition onAnalyze_calls :: "effect list \<Rightarrow> (js_string \<times> js_string) list" where
  "onAnalyze_calls es = concat (map (\<lambda>e. case e of OnAnalyze r j \<Rightarrow> [(r, j)] | _ \<Rightarrow> []) es)"

definition toasts :: "effect list \<Rightarrow> toast_message list" where
  "toasts es = concat (map (\<lambda>e. case e of Toast t \<Rightarrow> [t] | _ \<Rightarrow> []) es)"


section \<open>The analysis object and its field names\<close>

text \<open>
  The JSON schema \<^verbatim>\<open>outputSchema\<close> that \<^verbatim>\<open>handleFormSubmit\<close> hands to the external
  model call. Property order is the source's.
\<close>

datatype schema =
    SString
  | SNumber
  | SBoolean
  | SArray schema
  | SObject "(string \<times> schema) list"

definition meta_schema :: schema where
  "meta_schema = SObject
     [(''ats_score'', SNumber),
      (''coverage'', SObject
         [(''must_have_keywords'', SString),
          (''nice_to_have'', SString)]),
      (''risks'', SArray SString),
      (''length_ok'', SBoolean),
      (''reading_level'', SString)]"

definition result_properties :: "(string \<times> schema) list" where
  "result_properties =
     [(''executiveSummary'', SArray SString),
      (''keywordMatrix'', SArray (SObject
         [(''jdSkill'', SString),
          (''presentInResume'', SString),
          (''evidenceSnippet'', SString),
          (''action'', SString)])),
      (''redFlags'', SArray (SObject
         [(''flag'', SString),
          (''details'', SString),
          (''fix'', SString)])),
      (''resumeAtsPlain'', SString),
      (''resumeMarkdown'', SString),
      (''bulletUpgrades'', SArray (SObject
         [(''before'', SString),
          (''after'', SString)])),
      (''coverLetter'', SString),
      (''linkedinProfile'', SObject
         [(''headline'', SString),
          (''about'', SString)])]"

definition outputSchema :: schema where
  "outputSchema = SObject ((''meta'', meta_schema) # result_properties)"

text \<open>Every property name of a schema, nested ones included, in document order.\<close>

fun property_names :: "schema \<Rightarrow> string list" where
  "property_names (SObject ps) = concat (map (\<lambda>(k, s). k # property_names s) ps)"
| "property_names (SArray s) = property_names s"
| "property_names SString = []"
| "property_names SNumber = []"
| "property_names SBoolean = []"

text \<open>The two conventions. A snake\_case name is made of lower-case letters, digits and
  underscores; a camelCase name of letters and digits; both start with a lower-case
  letter. A single lower-case word such as \<^verbatim>\<open>meta\<close> fits both.\<close>

definition is_lower :: "char \<Rightarrow> bool" where
  "is_lower c \<longleftrightarrow> 97 \<le> (of_char c :: nat) \<and> (of_char c :: nat) \<le> 122"

definition is_upper :: "char \<Rightarrow> bool" where
  "is_upper c \<longleftrightarrow> 65 \<le> (of_char c :: nat) \<and> (of_char c :: nat) \<le> 90"

definition is_digit :: "char \<Rightarrow> bool" where
  "is_digit c \<longleftrightarrow> 48 \<le> (of_char c :: nat) \<and> (of_char c :: nat) \<le> 57"

definition is_snake_case :: "string \<Rightarrow> bool" where
  "is_snake_case n \<longleftrightarrow>
     (case n of [] \<Rightarrow> False | c # _ \<Rightarrow> is_lower c) \<and>
     list_all (\<lambda>c. is_lower c \<or> is_digit c \<or> c = CHR ''_'') n"

definition is_camel_case :: "string \<Rightarrow> bool" where
  "is_camel_case n \<longleftrightarrow>
     (case n of [] \<Rightarrow> False | c # _ \<Rightarrow> is_lower c) \<and>
     list_all (\<lambda>c. is_lower c \<or> is_upper c \<or> is_digit c) n"

text \<open>A list of field names keeps one convention when all of them are snake\_case or all of
  them are camelCase.\<close>

definition uniform_names :: "string list \<Rightarrow> bool" where
  "uniform_names ns \<longleftrightarrow> list_all is_snake_case ns \<or> list_all is_camel_case ns"

section \<open>The results panel: \<^verbatim>\<open>displayAnalysisResults\<close>\<close>

text \<open>What the page shows for \<^verbatim>\<open>data.ats_score.overall_score\<close>: the score rounded by
  \<^verbatim>\<open>Math.round\<close> (to the nearest integer, halves upwards) and one of four colour
  classes.\<close>

definition displayed_score :: "real \<Rightarrow> int" where
  "displayed_score atsScore = \<lfloor>atsScore + 1 / 2\<rfloor>"

definition score_class :: "real \<Rightarrow> string" where
  "score_class atsScore =
     (if atsScore \<ge> 85 then ''score-excellent''
      else if atsScore \<ge> 70 then ''score-good''
      else if atsScore \<ge> 55 then ''score-fair''
      else ''score-poor'')"

text \<open>The keys that \<^verbatim>\<open>displayAnalysisResults\<close>, \<^verbatim>\<open>displayExtractedFields\<close> and
  \<^verbatim>\<open>displayMissingKeywords\<close> read from the response of \<^verbatim>\<open>/api/analyze\<close>, in the order
  of their first use.\<close>

definition client_keys :: "string list" where
  "client_keys =
     [''ats_score'', ''overall_score'', ''ats_friendly_rating'', ''score_breakdown'',
      ''keywords'', ''formatting'', ''structure'', ''content_quality'', ''extracted_fields'',
      ''keyword_suggestions'', ''skills'', ''experience'', ''position'', ''company'',
      ''duration'', ''education'', ''degree'', ''institution'', ''high_priority'',
      ''keyword'', ''reason'', ''medium_priority'']"

section \<open>The scoring core\<close>

text \<open>
  The scorer, the matcher and the aggregator are the Python modules
  \<^verbatim>\<open>nlp/ats_scorer.py\<close>, \<^verbatim>\<open>nlp/job_matcher.py\<close> and \<^verbatim>\<open>backend/main.py\<close>. The
  sources at hand hold their callers and their documentation only, so the definitions of
  this section follow the specification, sentence by sentence. Scores are real numbers.
\<close>

subsection \<open>Scorer\<close>

text \<open>Modelled from the spec: the \<^verbatim>\<open>ScoreBreakdown\<close> of \<^verbatim>\<open>score()\<close>
  (\<^verbatim>\<open>nlp/ats_scorer.py\<close> is missing), ``five named sub-scores in [0,100]'', with the
  issue and recommendation lists the scorer emits, issues ``as (severity, message)
  pairs''.\<close>

record score_breakdown =
  formatting_sub :: real
  keywords_sub :: real
  structure_sub :: real
  content_quality_sub :: real
  readability_sub :: real
  issues_found :: "(string \<times> string) list"
  recommendations :: "string list"

text \<open>Modelled from the spec: the sub-score a breakdown holds for a component of a weight
  table (part of the missing \<^verbatim>\<open>score()\<close>); a breakdown has no sub-score for the two
  components that only the prompt names.\<close>

fun sub_score :: "score_breakdown \<Rightarrow> component \<Rightarrow> real" where
  "sub_score b Formatting = formatting_sub b"
| "sub_score b Keywords = keywords_sub b"
| "sub_score b Structure = structure_sub b"
| "sub_score b Content = content_quality_sub b"
| "sub_score b Readability = readability_sub b"
| "sub_score b ImpactMetrics = 0"
| "sub_score b RiskPenalties = 0"

text \<open>Modelled from the spec: the last step of the missing \<^verbatim>\<open>score()\<close>, ``clamp to
  [0,100]''.\<close>

definition clamp_score :: "real \<Rightarrow> real" where
  "clamp_score x = max 0 (min 100 x)"

text \<open>Modelled from the spec: the last step of the missing \<^verbatim>\<open>score()\<close>, ``round to one
  decimal'': the nearest tenth, a half going up.\<close>

definition round1 :: "real \<Rightarrow> real" where
  "round1 x = real_of_int \<lfloor>x * 10 + 1 / 2\<rfloor> / 10"

text \<open>Modelled from the spec: the overall score of the missing \<^verbatim>\<open>score()\<close>, ``Overall
  score = \<Sigma>(sub-score \<times> weight); clamp to [0,100]; round to one decimal'', for a given
  weight table.\<close>

definition overall_with :: "weight_table \<Rightarrow> score_breakdown \<Rightarrow> real" where
  "overall_with tbl b = round1 (clamp_score (weighted_sum tbl (sub_score b)))"

text \<open>Modelled from the spec: the overall score of the missing \<^verbatim>\<open>score()\<close> over the
  weight table of the scorer's documentation, the one table that names the five
  sub-scores.\<close>

definition overall_score :: "score_breakdown \<Rightarrow> real" where
  "overall_score b = overall_with docs_weights b"

subsection \<open>Checked division\<close>

text \<open>Modelled from the spec: the numeric fault that a division raises in the missing Python
  modules when the divisor is zero, as a value.\<close>

datatype numeric_fault = DivisionByZero

text \<open>Modelled from the spec: division as the missing Python modules perform it, raising on a
  zero divisor.\<close>

definition divide_checked :: "real \<Rightarrow> real \<Rightarrow> numeric_fault + real" where
  "divide_checked a b = (if b = 0 then Inl DivisionByZero else Inr (a / b))"

text \<open>Modelled from the spec: a quotient scaled to 100 (helper of the missing sub-score
  computations).\<close>

definition percent_of :: "real \<Rightarrow> real \<Rightarrow> numeric_fault + real" where
  "percent_of a b = (case divide_checked a b of Inl e \<Rightarrow> Inl e | Inr q \<Rightarrow> Inr (q * 100))"

subsection \<open>Inputs of the matcher\<close>

text \<open>Modelled from the spec: the importance tier of a required skill (type of the missing
  \<^verbatim>\<open>nlp/job_matcher.py\<close>).\<close>

datatype tier = MustHave | NiceToHave

text \<open>Modelled from the spec: the fields of \<^verbatim>\<open>ExtractedResume\<close> that the missing
  matcher reads: the normalised skill mentions, the total experience in years, the text
  embedding.\<close>

record extracted_resume =
  skills :: "string list"
  experience_years :: real
  resume_embedding :: "real list"

text \<open>Modelled from the spec: \<^verbatim>\<open>JobRequirements\<close> (input of the missing matcher), ``set of
  required skills (each tagged must-have/nice-to-have), minimum experience years
  (optional), ..., free-text embedding vector''.\<close>

record job_requirements =
  required_skills :: "(string \<times> tier) list"
  minimum_experience_years :: "real option"
  job_embedding :: "real list"


text \<open>Modelled from the spec: the weight of a tier in the missing \<^verbatim>\<open>match()\<close>, ``weighted
  1.5\<times> for must-have vs 1.0\<times> for nice-to-have''.\<close>

definition tier_weight :: "tier \<Rightarrow> real" where
  "tier_weight t = (case t of MustHave \<Rightarrow> 3 / 2 | NiceToHave \<Rightarrow> 1)"

text \<open>Modelled from the spec: the total weight of a list of tagged skills (helper of the
  missing \<^verbatim>\<open>match()\<close>).\<close>

definition skills_weight :: "(string \<times> tier) list \<Rightarrow> real" where
  "skills_weight ss = sum_list (map (\<lambda>(s, t). tier_weight t) ss)"

text \<open>Modelled from the spec: the required skills that the resume's skill set holds (helper
  of the missing \<^verbatim>\<open>match()\<close>).\<close>

definition matched_skills :: "extracted_resume \<Rightarrow> job_requirements \<Rightarrow> (string \<times> tier) list" where
  "matched_skills r j = filter (\<lambda>(s, t). s \<in> set (skills r)) (remdups (required_skills j))"

subsection \<open>Sub-scores that divide\<close>

text \<open>Modelled from the spec: the must-have entries of the job's required-skill set (helper
  of the missing \<^verbatim>\<open>match()\<close>).\<close>

definition must_have :: "job_requirements \<Rightarrow> (string \<times> tier) list" where
  "must_have j = filter (\<lambda>(s, t). t = MustHave) (remdups (required_skills j))"

text \<open>Modelled from the spec: the skill-match score of the missing \<^verbatim>\<open>match()\<close>,
  ``Jaccard-style overlap between resume skill set and job required-skill set, weighted
  1.5\<times> for must-have vs 1.0\<times> for nice-to-have, normalized to 100''. The overlap is the
  weight of the required skills found in the resume. The specification does not name the
  divisor; its testable properties fix the scale, ``a \<^verbatim>\<open>JobRequirements\<close> whose
  must-have set is a subset of the resume's skill set returns a skill-match score of
  100'': the overlap is taken over the weight of the must-have skills and the result
  stops at 100, so that nice-to-have skills add credit and full must-have coverage is
  full credit. With no must-have skill nothing is required and the score is 100.\<close>

definition skill_match :: "extracted_resume \<Rightarrow> job_requirements \<Rightarrow> numeric_fault + real" where
  "skill_match r j =
     (if skills_weight (must_have j) = 0 then Inr 100
      else case percent_of (skills_weight (matched_skills r j)) (skills_weight (must_have j)) of
             Inl e \<Rightarrow> Inl e
           | Inr p \<Rightarrow> Inr (min 100 p))"








subsection \<open>Aggregator\<close>

text \<open>Modelled from the spec: \<^verbatim>\<open>MatchResult\<close> (output of the missing \<^verbatim>\<open>match()\<close>),
  ``overall match score in [0,100], skill-match score, experience-match score,
  education-match score, list of missing skills grouped by category''.\<close>

record match_result =
  overall_match_score :: real
  skill_match_score :: real
  experience_match_score :: real
  education_match_score :: real
  missing_skills :: "(string \<times> string list) list"

text \<open>Modelled from the spec: \<^verbatim>\<open>AnalysisResponse\<close> (output of the missing
  \<^verbatim>\<open>aggregate()\<close>); the match result is optional.\<close>

record analysis_response =
  ats_score :: score_breakdown
  job_match :: "match_result option"

text \<open>Modelled from the spec: \<^verbatim>\<open>aggregate()\<close> (\<^verbatim>\<open>backend/main.py\<close> is missing), ``Pure
  merge; no computation.''\<close>

definition aggregate :: "score_breakdown \<Rightarrow> match_result option \<Rightarrow> analysis_response" where
  "aggregate breakdown m = \<lparr>ats_score = breakdown, job_match = m\<rparr>"

text \<open>Modelled from the spec: the JSON values that the missing serving layer sends.\<close>

datatype json =
    JNumber real
  | JString string
  | JArray "json list"
  | JObject "(string \<times> json) list"

text \<open>Modelled from the spec: the serialization of an issue of the missing scorer, a
  (severity, message) pair.\<close>

definition issue_json :: "string \<times> string \<Rightarrow> json" where
  "issue_json i = JObject [(''severity'', JString (fst i)), (''message'', JString (snd i))]"

text \<open>Modelled from the spec: the serialization of the score part of the missing response,
  with the keys of the documented \<^verbatim>\<open>POST /api/analyze\<close> response.\<close>

definition breakdown_json :: "score_breakdown \<Rightarrow> json" where
  "breakdown_json b = JObject
     [(''overall_score'', JNumber (overall_score b)),
      (''score_breakdown'', JObject
         [(''formatting'', JNumber (formatting_sub b)),
          (''structure'', JNumber (structure_sub b)),
          (''keywords'', JNumber (keywords_sub b)),
          (''content_quality'', JNumber (content_quality_sub b)),
          (''readability'', JNumber (readability_sub b))]),
      (''issues_found'', JArray (map issue_json (issues_found b))),
      (''recommendations'', JArray (map JString (recommendations b)))]"

text \<open>Modelled from the spec: the serialization of one group of missing skills of the missing
  matcher.\<close>

definition group_json :: "string \<times> string list \<Rightarrow> json" where
  "group_json g = JObject [(''category'', JString (fst g)), (''skills'', JArray (map JString (snd g)))]"

text \<open>Modelled from the spec: the serialization of the match part of the missing
  response.\<close>

definition match_json :: "match_result \<Rightarrow> json" where
  "match_json m = JObject
     [(''overall_match_score'', JNumber (overall_match_score m)),
      (''skill_match_score'', JNumber (skill_match_score m)),
      (''experience_match_score'', JNumber (experience_match_score m)),
      (''education_match_score'', JNumber (education_match_score m)),
      (''missing_skills'', JArray (map group_json (missing_skills m)))]"

text \<open>Modelled from the spec: the serialization of the missing response: ``If no job
  description was supplied, \<^verbatim>\<open>match\<close> is absent and the response omits match-related
  fields rather than emitting zeros'': \<^verbatim>\<open>job_match\<close> is there ``if job description
  provided''.\<close>

definition response_json :: "analysis_response \<Rightarrow> json" where
  "response_json resp = JObject
     ((''ats_score'', breakdown_json (ats_score resp)) #
      (case job_match resp of None \<Rightarrow> [] | Some m \<Rightarrow> [(''job_match'', match_json m)]))"

text \<open>Modelled from the spec: the keys that carry the match result in the missing
  response.\<close>

definition match_keys :: "string list" where
  "match_keys =
     [''job_match'', ''overall_match_score'', ''skill_match_score'',
      ''experience_match_score'', ''education_match_score'', ''missing_skills'',
      ''category'', ''skills'']"

text \<open>Modelled from the spec: the keys that carry the score part of the missing
  response.\<close>

definition score_keys :: "string list" where
  "score_keys =
     [''ats_score'', ''overall_score'', ''score_breakdown'', ''formatting'', ''structure'',
      ''keywords'', ''content_quality'', ''readability'', ''issues_found'',
      ''recommendations'', ''severity'', ''message'']"

text \<open>Every key of a JSON value, nested ones included.\<close>

fun json_keys :: "json \<Rightarrow> string list" where
  "json_keys (JObject ps) = concat (map (\<lambda>(k, v). k # json_keys v) ps)"
| "json_keys (JArray vs) = concat (map json_keys vs)"
| "json_keys (JNumber x) = []"
| "json_keys (JString s) = []"

section \<open>Properties of the weight tables\<close>

text \<open>
  Claim C2. The five sub-score weights of the ATS scorer (formatting, keywords, structure,
  content quality, readability) sum to exactly 1.0 in the canonical weight table: the
  table of the scorer's documentation lists exactly these five components, and their
  weights add up to one.
\<close>

theorem docs_weights_sum_to_one:
  "map fst docs_weights = sub_scores \<and> sum_list (map (weight docs_weights) sub_scores) = 1"
  by (simp add: weight_def docs_weights_def sub_scores_def)

text \<open>The prompt's table adds up to one as well, over its own five components; on the five
  sub-scores of the scorer it has only seventy percent.\<close>

lemma prompt_weights_sum_to_one:
  "sum_list (map (weight prompt_weights) (map fst prompt_weights)) = 1"
  by (simp add: weight_def prompt_weights_def)

lemma prompt_weights_on_sub_scores:
  "sum_list (map (weight prompt_weights) sub_scores) = 70 / 100"
  by (simp add: weight_def prompt_weights_def sub_scores_def)

text \<open>
  Claim C5, as stated, says that the two tables also differ in the readability weight.
  They do not: readability has ten percent in both.
\<close>

theorem readability_weights_agree:
  "\<not> weight docs_weights Readability \<noteq> weight prompt_weights Readability"
  by (simp add: weight_def docs_weights_def prompt_weights_def)

text \<open>
  Claim C5, amended. The two weight tables define different overall-score functions: the
  documentation assigns formatting 25% and keywords 30%, the prompt formatting 20% and
  keywords 40%; content has 15% in the documentation where the prompt gives impact
  metrics 20%; readability has 10% in both; the documentation's structure component is
  not in the prompt's table and the prompt's risk penalties are not in the
  documentation's. A resume with a formatting score of 100 and every other score 0 gets
  25 from one table and 20 from the other, so the two scorers are not equivalent.
\<close>

theorem weight_tables_not_equivalent:
  "weight docs_weights Formatting = 25 / 100 \<and> weight prompt_weights Formatting = 20 / 100 \<and>
   weight docs_weights Keywords = 30 / 100 \<and> weight prompt_weights Keywords = 40 / 100 \<and>
   weight docs_weights Content = 15 / 100 \<and> weight prompt_weights ImpactMetrics = 20 / 100 \<and>
   weight docs_weights Readability = 10 / 100 \<and> weight prompt_weights Readability = 10 / 100 \<and>
   map_of prompt_weights Structure = None \<and> map_of docs_weights RiskPenalties = None \<and>
   weighted_sum docs_weights (\<lambda>c. if c = Formatting then 100 else 0) = 25 \<and>
   weighted_sum prompt_weights (\<lambda>c. if c = Formatting then 100 else 0) = 20 \<and>
   weighted_sum docs_weights \<noteq> weighted_sum prompt_weights"
proof -
  have a: "weighted_sum docs_weights (\<lambda>c. if c = Formatting then 100 else 0) = 25"
    by (simp add: weighted_sum_def docs_weights_def)
  have b: "weighted_sum prompt_weights (\<lambda>c. if c = Formatting then 100 else 0) = 20"
    by (simp add: weighted_sum_def prompt_weights_def)
  have "weighted_sum docs_weights \<noteq> weighted_sum prompt_weights"
  proof
    assume "weighted_sum docs_weights = weighted_sum prompt_weights"
    with a b show False by simp
  qed
  with a b show ?thesis by (simp add: weight_def docs_weights_def prompt_weights_def)
qed

section \<open>Properties of the landing form\<close>

text \<open>The test \<^verbatim>\<open>!s.trim()\<close> holds exactly when no code unit of the string is other than
  whitespace.\<close>

lemma dropWhile_all_iff:
  "(\<forall>x\<in>set (dropWhile P xs). P x) \<longleftrightarrow> (\<forall>x\<in>set xs. P x)"
proof
  assume all: "\<forall>x\<in>set (dropWhile P xs). P x"
  have "dropWhile P xs = []"
  proof (rule ccontr)
    assume ne: "dropWhile P xs \<noteq> []"
    then have "\<not> P (hd (dropWhile P xs))" by (rule hd_dropWhile)
    moreover from ne have "hd (dropWhile P xs) \<in> set (dropWhile P xs)" by simp
    ultimately show False using all by blast
  qed
  then show "\<forall>x\<in>set xs. P x" by (simp add: dropWhile_eq_Nil_conv)
next
  assume "\<forall>x\<in>set xs. P x"
  then show "\<forall>x\<in>set (dropWhile P xs). P x" by (blast dest: set_dropWhileD)
qed

lemma blank_iff: "blank s \<longleftrightarrow> \<not> has_non_whitespace s"
  unfolding blank_def trim_def has_non_whitespace_def
  by (simp add: list_ex_iff dropWhile_eq_Nil_conv dropWhile_all_iff)

lemma settle_timer:
  "settle (st, [PreventDefault, SetTimeout ms r j]) =
     (st\<lparr>isLoading := False\<rparr>, [PreventDefault, SetTimeout ms r j, OnAnalyze r j])"
  by (simp add: settle_def)

lemma settle_toast2: "settle (st, [PreventDefault, Toast t]) = (st, [PreventDefault, Toast t])"
  by (simp add: settle_def)

text \<open>
  Claim C9. The submit handler of HeroSection invokes the analysis callback onAnalyze only
  when both the resume text and the job-description text contain at least one
  non-whitespace character: it then sets the loading flag and starts the timer whose
  callback calls onAnalyze once, with the two texts, and shows no toast. If either text is
  empty or whitespace-only, it shows the destructive `Missing Information' toast, never
  calls onAnalyze and leaves the state as it was.
\<close>

theorem handleSubmit_requires_both_texts:
  "(has_non_whitespace (resume st) \<and> has_non_whitespace (jobDescription st) \<longrightarrow>
      handleSubmit st =
        (st\<lparr>isLoading := True\<rparr>,
         [PreventDefault, SetTimeout 2000 (resume st) (jobDescription st)]) \<and>
      onAnalyze_calls (snd (settle (handleSubmit st))) = [(resume st, jobDescription st)] \<and>
      toasts (snd (settle (handleSubmit st))) = []) \<and>
   (\<not> (has_non_whitespace (resume st) \<and> has_non_whitespace (jobDescription st)) \<longrightarrow>
      settle (handleSubmit st) = (st, [PreventDefault, Toast missing_information]) \<and>
      onAnalyze_calls (snd (settle (handleSubmit st))) = [] \<and>
      toasts (snd (settle (handleSubmit st))) = [missing_information] \<and>
      title missing_information = ''Missing Information'' \<and>
      variant missing_information = ''destructive'')"
  by (simp add: handleSubmit_def blank_iff settle_timer settle_toast2 onAnalyze_calls_def
      toasts_def missing_information_def)

text \<open>Both branches at concrete inputs: a resume with a job description of one letter
  between spaces, and the same resume with a job description of a space, an ideographic
  space and a line feed.\<close>

theorem handleSubmit_requires_both_texts_witness:
  "handleSubmit \<lparr>resume = js ''Engineer'', jobDescription = js '' x '', isLoading = False\<rparr> =
     (\<lparr>resume = js ''Engineer'', jobDescription = js '' x '', isLoading = True\<rparr>,
      [PreventDefault, SetTimeout 2000 (js ''Engineer'') (js '' x '')]) \<and>
   onAnalyze_calls (snd (settle (handleSubmit
       \<lparr>resume = js ''Engineer'', jobDescription = js '' x '', isLoading = False\<rparr>))) =
     [(js ''Engineer'', js '' x '')] \<and>
   settle (handleSubmit \<lparr>resume = js ''Engineer'', jobDescription = [0x20, 0x3000, 0x0A],
       isLoading = False\<rparr>) =
     (\<lparr>resume = js ''Engineer'', jobDescription = [0x20, 0x3000, 0x0A], isLoading = False\<rparr>,
      [PreventDefault, Toast missing_information])"
proof -
  let ?ok = "\<lparr>resume = js ''Engineer'', jobDescription = js '' x '', isLoading = False\<rparr>"
  let ?bad = "\<lparr>resume = js ''Engineer'', jobDescription = [0x20, 0x3000, 0x0A],
                isLoading = False\<rparr>"
  have ok: "has_non_whitespace (resume ?ok) \<and> has_non_whitespace (jobDescription ?ok)"
    by (simp add: js_def has_non_whitespace_def is_white_space_def)
  have bad: "\<not> (has_non_whitespace (resume ?bad) \<and> has_non_whitespace (jobDescription ?bad))"
    by (simp add: has_non_whitespace_def is_white_space_def)
  from ok handleSubmit_requires_both_texts [of ?ok]
  have 1: "handleSubmit ?ok =
        (?ok\<lparr>isLoading := True\<rparr>,
         [PreventDefault, SetTimeout 2000 (resume ?ok) (jobDescription ?ok)])"
    and 2: "onAnalyze_calls (snd (settle (handleSubmit ?ok))) =
        [(resume ?ok, jobDescription ?ok)]"
    by blast+
  from bad handleSubmit_requires_both_texts [of ?bad]
  have 3: "settle (handleSubmit ?bad) = (?bad, [PreventDefault, Toast missing_information])"
    by blast
  from 1 2 3 show ?thesis by simp
qed

lemma settle_read:
  "settle (st, [ReadAsText f]) =
     (case read_result f of Some content \<Rightarrow> (st\<lparr>resume := content\<rparr>, [ReadAsText f])
      | None \<Rightarrow> (st, [ReadAsText f]))"
  by (simp add: settle_def split: option.split)

lemma settle_toast1: "settle (st, [Toast t]) = (st, [Toast t])"
  by (simp add: settle_def)

text \<open>
  Claim C10. The file-upload handler of HeroSection updates the resume text only for a
  selected file whose MIME type is exactly "text/plain": it starts reading that file, and
  the text read becomes the resume. For any other file, and for no file, it shows the
  destructive `Invalid File' toast and the state is left unchanged.
\<close>

theorem handleFileUpload_text_plain_only:
  "(\<forall>f. first_file files = Some f \<and> file_type f = js ''text/plain'' \<longrightarrow>
      handleFileUpload files st = (st, [ReadAsText f]) \<and>
      settle (handleFileUpload files st) =
        (case read_result f of
           Some content \<Rightarrow> (st\<lparr>resume := content\<rparr>, [ReadAsText f])
         | None \<Rightarrow> (st, [ReadAsText f]))) \<and>
   (\<not> (\<exists>f. first_file files = Some f \<and> file_type f = js ''text/plain'') \<longrightarrow>
      settle (handleFileUpload files st) = (st, [Toast invalid_file]) \<and>
      title invalid_file = ''Invalid File'' \<and> variant invalid_file = ''destructive'')"
  by (auto simp: handleFileUpload_def settle_read settle_toast1 invalid_file_def
      split: option.splits)

text \<open>The three cases at concrete inputs: a plain-text file, a PDF, and no file list.\<close>

theorem handleFileUpload_text_plain_only_witness:
  "settle (handleFileUpload
      (Some [\<lparr>file_type = js ''text/plain'', read_result = Some (js ''Jane Doe'')\<rparr>])
      \<lparr>resume = [], jobDescription = js ''Tester'', isLoading = False\<rparr>) =
     (\<lparr>resume = js ''Jane Doe'', jobDescription = js ''Tester'', isLoading = False\<rparr>,
      [ReadAsText \<lparr>file_type = js ''text/plain'', read_result = Some (js ''Jane Doe'')\<rparr>]) \<and>
   settle (handleFileUpload
      (Some [\<lparr>file_type = js ''application/pdf'', read_result = Some (js ''PDF-1.4'')\<rparr>])
      \<lparr>resume = [], jobDescription = js ''Tester'', isLoading = False\<rparr>) =
     (\<lparr>resume = [], jobDescription = js ''Tester'', isLoading = False\<rparr>,
      [Toast invalid_file]) \<and>
   settle (handleFileUpload None
      \<lparr>resume = [], jobDescription = js ''Tester'', isLoading = False\<rparr>) =
     (\<lparr>resume = [], jobDescription = js ''Tester'', isLoading = False\<rparr>,
      [Toast invalid_file])"
proof -
  let ?st = "\<lparr>resume = [], jobDescription = js ''Tester'', isLoading = False\<rparr>"
  let ?plain = "\<lparr>file_type = js ''text/plain'', read_result = Some (js ''Jane Doe'')\<rparr>"
  let ?other = "\<lparr>file_type = js ''application/pdf'', read_result = Some (js ''PDF-1.4'')\<rparr>"
  have plain: "first_file (Some [?plain]) = Some ?plain \<and> file_type ?plain = js ''text/plain''"
    by (simp add: first_file_def)
  have other: "\<not> (\<exists>f. first_file (Some [?other]) = Some f \<and> file_type f = js ''text/plain'')"
    by (simp add: first_file_def js_def)
  have none: "\<not> (\<exists>f. first_file None = Some f \<and> file_type f = js ''text/plain'')"
    by (simp add: first_file_def)
  from plain handleFileUpload_text_plain_only [of "Some [?plain]" ?st]
  have 1: "settle (handleFileUpload (Some [?plain]) ?st) =
      (case read_result ?plain of
         Some content \<Rightarrow> (?st\<lparr>resume := content\<rparr>, [ReadAsText ?plain])
       | None \<Rightarrow> (?st, [ReadAsText ?plain]))"
    by blast
  from other handleFileUpload_text_plain_only [of "Some [?other]" ?st]
  have 2: "settle (handleFileUpload (Some [?other]) ?st) = (?st, [Toast invalid_file])"
    by blast
  from none handleFileUpload_text_plain_only [of None ?st]
  have 3: "settle (handleFileUpload None ?st) = (?st, [Toast invalid_file])"
    by blast
  from 1 2 3 show ?thesis by simp
qed

section \<open>Properties of the model call's schema\<close>

text \<open>The schema handed to the external model call is not the response of the scoring
  core. Its names under \<^verbatim>\<open>meta\<close> are snake\_case and its other names camelCase, so as
  a whole it keeps neither convention.\<close>

lemma outputSchema_names:
  "property_names outputSchema =
     [''meta'', ''ats_score'', ''coverage'', ''must_have_keywords'', ''nice_to_have'',
      ''risks'', ''length_ok'', ''reading_level'', ''executiveSummary'', ''keywordMatrix'',
      ''jdSkill'', ''presentInResume'', ''evidenceSnippet'', ''action'', ''redFlags'',
      ''flag'', ''details'', ''fix'', ''resumeAtsPlain'', ''resumeMarkdown'',
      ''bulletUpgrades'', ''before'', ''after'', ''coverLetter'', ''linkedinProfile'',
      ''headline'', ''about'']"
  by (simp add: outputSchema_def meta_schema_def result_properties_def)

lemma ats_score_not_camel: "\<not> is_camel_case ''ats_score''"
  by (simp add: is_camel_case_def is_lower_def is_upper_def is_digit_def)

lemma executiveSummary_not_snake: "\<not> is_snake_case ''executiveSummary''"
  by (simp add: is_snake_case_def is_lower_def is_digit_def)

lemma outputSchema_mixes_conventions: "\<not> uniform_names (property_names outputSchema)"
  by (simp add: uniform_names_def outputSchema_names ats_score_not_camel
      executiveSummary_not_snake)

lemma outputSchema_naming_by_part:
  "list_all is_snake_case (property_names meta_schema) \<and>
   list_all is_camel_case (''meta'' # property_names (SObject result_properties)) \<and>
   property_names outputSchema =
     ''meta'' # property_names meta_schema @ property_names (SObject result_properties)"
proof (intro conjI)
  show "list_all is_snake_case (property_names meta_schema)"
    by (simp add: meta_schema_def is_snake_case_def is_lower_def is_digit_def)
  show "list_all is_camel_case (''meta'' # property_names (SObject result_properties))"
    by (simp add: result_properties_def is_camel_case_def is_lower_def is_upper_def
        is_digit_def)
  show "property_names outputSchema =
     ''meta'' # property_names meta_schema @ property_names (SObject result_properties)"
    by (simp add: outputSchema_def)
qed

section \<open>Properties of the results panel\<close>

lemma displayed_score_range:
  "0 \<le> x \<Longrightarrow> x \<le> 100 \<Longrightarrow> 0 \<le> displayed_score x \<and> displayed_score x \<le> 100"
  unfolding displayed_score_def by (simp add: floor_le_iff le_floor_iff)

lemma score_class_cases:
  "score_class x \<in> {''score-excellent'', ''score-good'', ''score-fair'', ''score-poor''}"
  by (simp add: score_class_def)

section \<open>Properties of the scoring core\<close>

subsection \<open>Overall score\<close>

lemma round1_range: "0 \<le> x \<Longrightarrow> x \<le> 100 \<Longrightarrow> 0 \<le> round1 x \<and> round1 x \<le> 100"
proof -
  assume a: "0 \<le> x" and b: "x \<le> 100"
  have "0 \<le> \<lfloor>x * 10 + 1 / 2\<rfloor>" using a by simp
  moreover have "\<lfloor>x * 10 + 1 / 2\<rfloor> \<le> 1000"
  proof -
    have "x * 10 + 1 / 2 < 1001" using b by simp
    then have "\<lfloor>x * 10 + 1 / 2\<rfloor> < 1001" by (simp add: floor_less_iff)
    then show ?thesis by simp
  qed
  ultimately show ?thesis by (simp add: round1_def)
qed

lemma clamp_score_range: "0 \<le> clamp_score x \<and> clamp_score x \<le> 100"
  by (simp add: clamp_score_def)

lemma weighted_sum_docs:
  "weighted_sum docs_weights (sub_score b) =
     formatting_sub b * (25 / 100) + keywords_sub b * (30 / 100) +
     structure_sub b * (20 / 100) + content_quality_sub b * (15 / 100) +
     readability_sub b * (10 / 100)"
  by (simp add: weighted_sum_def docs_weights_def)

text \<open>With sub-scores in range the weighted sum is in range already, so the clamp changes
  nothing there.\<close>

lemma weighted_sum_docs_range:
  assumes "\<forall>c\<in>set sub_scores. 0 \<le> sub_score b c \<and> sub_score b c \<le> 100"
  shows "0 \<le> weighted_sum docs_weights (sub_score b) \<and>
         weighted_sum docs_weights (sub_score b) \<le> 100"
  using assms unfolding weighted_sum_docs by (simp add: sub_scores_def)

lemma overall_score_unclamped:
  assumes "\<forall>c\<in>set sub_scores. 0 \<le> sub_score b c \<and> sub_score b c \<le> 100"
  shows "overall_score b = round1 (weighted_sum docs_weights (sub_score b))"
  using weighted_sum_docs_range [OF assms]
  by (simp add: overall_score_def overall_with_def clamp_score_def)

lemma overall_with_range: "0 \<le> overall_with tbl b \<and> overall_with tbl b \<le> 100"
  unfolding overall_with_def using clamp_score_range by (intro round1_range) auto

text \<open>
  Claim C1. For every combination of the five sub-scores each lying in [0,100], the
  overall ATS score is within [0,100]: it equals the weighted sum of the sub-scores,
  clamped to [0,100] and rounded to one decimal. The bounds hold whichever weight table
  the scorer is given.
\<close>

theorem overall_score_in_range:
  assumes "\<forall>c\<in>set sub_scores. 0 \<le> sub_score b c \<and> sub_score b c \<le> 100"
  shows "0 \<le> overall_score b \<and> overall_score b \<le> 100 \<and>
         overall_score b =
           round1 (clamp_score
             (formatting_sub b * (25 / 100) + keywords_sub b * (30 / 100) +
              structure_sub b * (20 / 100) + content_quality_sub b * (15 / 100) +
              readability_sub b * (10 / 100))) \<and>
         0 \<le> overall_with tbl b \<and> overall_with tbl b \<le> 100"
  using overall_with_range [of docs_weights b] overall_with_range [of tbl b]
  by (simp add: overall_score_def overall_with_def weighted_sum_docs)

text \<open>The sub-scores of the documented sample response (90, 80, 85, 88, 92) give 85.9.\<close>

theorem overall_score_in_range_witness:
  "list_all
     (\<lambda>c. 0 \<le> sub_score \<lparr>formatting_sub = 90, keywords_sub = 80, structure_sub = 85,
             content_quality_sub = 88, readability_sub = 92, issues_found = [],
             recommendations = []\<rparr> c \<and>
          sub_score \<lparr>formatting_sub = 90, keywords_sub = 80, structure_sub = 85,
             content_quality_sub = 88, readability_sub = 92, issues_found = [],
             recommendations = []\<rparr> c \<le> 100) sub_scores \<and>
   overall_score \<lparr>formatting_sub = 90, keywords_sub = 80, structure_sub = 85,
      content_quality_sub = 88, readability_sub = 92, issues_found = [],
      recommendations = []\<rparr> = 859 / 10 \<and>
   0 \<le> overall_score \<lparr>formatting_sub = 90, keywords_sub = 80, structure_sub = 85,
      content_quality_sub = 88, readability_sub = 92, issues_found = [],
      recommendations = []\<rparr> \<and>
   overall_score \<lparr>formatting_sub = 90, keywords_sub = 80, structure_sub = 85,
      content_quality_sub = 88, readability_sub = 92, issues_found = [],
      recommendations = []\<rparr> \<le> 100"
proof -
  let ?b = "\<lparr>formatting_sub = 90, keywords_sub = 80, structure_sub = 85,
      content_quality_sub = 88, readability_sub = 92, issues_found = [],
      recommendations = []\<rparr>"
  have h: "\<forall>c\<in>set sub_scores. 0 \<le> sub_score ?b c \<and> sub_score ?b c \<le> 100"
    by (simp add: sub_scores_def)
  have v: "round1 (clamp_score (90 * (25 / 100) + 80 * (30 / 100) + 85 * (20 / 100) +
      88 * (15 / 100) + 92 * (10 / 100))) = 859 / 10"
    by (simp add: clamp_score_def round1_def)
  from overall_score_in_range [OF h, of docs_weights] v h show ?thesis
    by (simp add: list_all_iff)
qed

subsection \<open>Skill match\<close>




lemma percent_of_self: "w \<noteq> 0 \<Longrightarrow> percent_of w w = Inr 100"
  by (simp add: percent_of_def divide_checked_def)










text \<open>The example scenario of the specification: the resume has python, sql and docker, the
  job must have python and aws and would like docker. One of two must-have skills and the
  one nice-to-have skill are found: (1.5 + 1) / 3 of full credit.\<close>

lemma skill_match_example:
  "skill_match \<lparr>skills = [''python'', ''sql'', ''docker''], experience_years = 3,
       resume_embedding = []\<rparr>
     \<lparr>required_skills = [(''python'', MustHave), (''aws'', MustHave), (''docker'', NiceToHave)],
      minimum_experience_years = None, job_embedding = []\<rparr> = Inr (250 / 3)"
  by (simp add: skill_match_def must_have_def matched_skills_def skills_weight_def
      tier_weight_def percent_of_def divide_checked_def)




subsection \<open>No numeric fault\<close>








subsection \<open>Aggregation without a match\<close>

lemma keys_issues: "set (json_keys (JArray (map issue_json is))) \<subseteq> set score_keys"
  by (induction "is") (simp_all add: issue_json_def score_keys_def)

lemma keys_strings: "json_keys (JArray (map JString xs)) = []"
  by (induction xs) simp_all

lemma keys_breakdown: "set (json_keys (breakdown_json b)) \<subseteq> set score_keys"
proof -
  have "json_keys (breakdown_json b) =
      [''overall_score'', ''score_breakdown'', ''formatting'', ''structure'', ''keywords'',
       ''content_quality'', ''readability'', ''issues_found''] @
      json_keys (JArray (map issue_json (issues_found b))) @ [''recommendations'']"
    using keys_strings [of "recommendations b"] by (simp add: breakdown_json_def)
  moreover have "set [''overall_score'', ''score_breakdown'', ''formatting'', ''structure'',
       ''keywords'', ''content_quality'', ''readability'', ''issues_found''] \<subseteq> set score_keys"
    by (simp add: score_keys_def)
  moreover have "set [''recommendations''] \<subseteq> set score_keys"
    by (simp add: score_keys_def)
  ultimately show ?thesis
    using keys_issues [of "issues_found b"] by (simp only: set_append Un_subset_iff)
qed

lemma keys_without_match:
  "set (json_keys (response_json (aggregate b None))) \<subseteq> set score_keys"
proof -
  have "json_keys (response_json (aggregate b None)) =
      ''ats_score'' # json_keys (breakdown_json b)"
    by (simp add: response_json_def aggregate_def)
  moreover have "''ats_score'' \<in> set score_keys" by (simp add: score_keys_def)
  ultimately show ?thesis using keys_breakdown [of b] by (simp only: set_simps insert_subset)
qed

lemma score_keys_disjoint: "set score_keys \<inter> set match_keys = {}"
  by (simp add: score_keys_def match_keys_def)

text \<open>With a match the key \<^verbatim>\<open>job_match\<close> is there, so its absence below is not by
  construction of the serialization alone.\<close>

lemma job_match_key_with_match:
  "''job_match'' \<in> set (json_keys (response_json (aggregate b (Some m))))"
  by (simp add: response_json_def aggregate_def)

text \<open>
  Claim C4. For every ScoreBreakdown, aggregate() called with the match argument absent
  produces a response whose serialization contains no match-related key: the keys are
  omitted, not emitted with zeros.
\<close>

theorem no_match_keys_without_match:
  "set (json_keys (response_json (aggregate b None))) \<inter> set match_keys = {} \<and>
   job_match (aggregate b None) = None"
proof
  show "set (json_keys (response_json (aggregate b None))) \<inter> set match_keys = {}"
    using keys_without_match [of b] score_keys_disjoint by blast
  show "job_match (aggregate b None) = None" by (simp add: aggregate_def)
qed

subsection \<open>Field names of the response\<close>

lemma score_keys_snake: "list_all is_snake_case score_keys"
  by (simp add: score_keys_def is_snake_case_def is_lower_def is_digit_def)

lemma match_keys_snake: "list_all is_snake_case match_keys"
  by (simp add: match_keys_def is_snake_case_def is_lower_def is_digit_def)

text \<open>The keys that the page's script reads from the response are snake\_case too.\<close>

lemma client_keys_snake: "list_all is_snake_case client_keys"
  by (simp add: client_keys_def is_snake_case_def is_lower_def is_digit_def)

lemma keys_groups: "set (json_keys (JArray (map group_json gs))) \<subseteq> set match_keys"
proof (induction gs)
  case Nil
  show ?case by simp
next
  case (Cons g gs)
  have "json_keys (group_json g) = [''category'', ''skills'']"
    using keys_strings [of "snd g"] by (simp add: group_json_def)
  moreover have "set [''category'', ''skills''] \<subseteq> set match_keys"
    by (simp add: match_keys_def)
  ultimately show ?case using Cons by simp
qed

lemma keys_match: "set (json_keys (match_json m)) \<subseteq> set match_keys"
proof -
  have "json_keys (match_json m) =
      [''overall_match_score'', ''skill_match_score'', ''experience_match_score'',
       ''education_match_score'', ''missing_skills''] @
      json_keys (JArray (map group_json (missing_skills m)))"
    by (simp add: match_json_def)
  moreover have "set [''overall_match_score'', ''skill_match_score'',
       ''experience_match_score'', ''education_match_score'', ''missing_skills''] \<subseteq>
      set match_keys"
    by (simp add: match_keys_def)
  ultimately show ?thesis
    using keys_groups [of "missing_skills m"] by (simp only: set_append Un_subset_iff)
qed

lemma keys_response:
  "set (json_keys (response_json resp)) \<subseteq> set score_keys \<union> set match_keys"
proof (cases "job_match resp")
  case None
  then have "json_keys (response_json resp) =
      ''ats_score'' # json_keys (breakdown_json (ats_score resp))"
    by (simp add: response_json_def)
  moreover have "''ats_score'' \<in> set score_keys" by (simp add: score_keys_def)
  ultimately show ?thesis using keys_breakdown [of "ats_score resp"] by auto
next
  case (Some m)
  then have "json_keys (response_json resp) =
      ''ats_score'' # json_keys (breakdown_json (ats_score resp)) @
      ''job_match'' # json_keys (match_json m)"
    by (simp add: response_json_def)
  moreover have "''ats_score'' \<in> set score_keys" by (simp add: score_keys_def)
  moreover have "''job_match'' \<in> set match_keys" by (simp add: match_keys_def)
  ultimately show ?thesis using keys_breakdown [of "ats_score resp"] keys_match [of m] by auto
qed

text \<open>
  Claim C8. Every serialized AnalysisResponse uses an internally consistent field-naming
  convention: all field names are uniformly snake\_case or uniformly camelCase, never a
  mixture. The response is snake\_case throughout, with a match result and without.
\<close>

theorem response_field_names_uniform:
  "uniform_names (json_keys (response_json resp)) \<and>
   list_all is_snake_case (json_keys (response_json resp))"
proof -
  have "list_all is_snake_case (json_keys (response_json resp))"
    unfolding list_all_iff
  proof
    fix k assume "k \<in> set (json_keys (response_json resp))"
    with keys_response [of resp] have "k \<in> set score_keys \<or> k \<in> set match_keys" by blast
    with score_keys_snake match_keys_snake show "is_snake_case k"
      unfolding list_all_iff by blast
  qed
  then show ?thesis by (simp add: uniform_names_def)
qed


end
